theory Spec2Isabelle
  imports Complex_Main
begin

section \<open>Python strings\<close>

text \<open>
  A Python \<open>str\<close> is a sequence of code points and \<open>len\<close> counts code points. It is
  modelled as \<^typ>\<open>string\<close> with one \<^typ>\<open>char\<close> per code point, so the model covers the
  texts whose code points lie below 256. On that range \<open>str.isspace\<close>, \<open>str.strip\<close> and
  \<open>str.lower\<close> are the functions below.
\<close>

definition isspace :: "char \<Rightarrow> bool" where
  "isspace c = List.member
     [CHR 0x09, CHR 0x0A, CHR 0x0B, CHR 0x0C, CHR 0x0D, CHR 0x1C, CHR 0x1D, CHR 0x1E,
      CHR 0x1F, CHR 0x20, CHR 0x85, CHR 0xA0] c"

definition strip :: "string \<Rightarrow> string" where
  "strip s = rev (dropWhile isspace (rev (dropWhile isspace s)))"

definition lower_char :: "char \<Rightarrow> char" where
  "lower_char c =
     (let n = (of_char c :: nat)
      in if (65 \<le> n \<and> n \<le> 90) \<or> (192 \<le> n \<and> n \<le> 222 \<and> n \<noteq> 215)
         then char_of (n + 32) else c)"

definition lower :: "string \<Rightarrow> string" where
  "lower s = map lower_char s"

text \<open>\<open>startswith s k\<close> is \<open>s.startswith(k)\<close>; \<open>py_in k s\<close> is the operator \<open>k in s\<close>.\<close>

fun startswith :: "string \<Rightarrow> string \<Rightarrow> bool" where
  "startswith s [] = True"
| "startswith [] (k # ks) = False"
| "startswith (c # cs) (k # ks) = (c = k \<and> startswith cs ks)"

fun py_in :: "string \<Rightarrow> string \<Rightarrow> bool" where
  "py_in k [] = (k = [])"
| "py_in k (c # cs) = (startswith (c # cs) k \<or> py_in k cs)"

section \<open>Exceptions\<close>

text \<open>
  The exceptions the handler can meet: a missing dictionary key, a missing attribute, and
  whatever the external client raises, carried with its description. The keys the
  handler subscripts are \<open>output\<close>, \<open>text\<close> and \<open>content\<close>. \<open>str\<close> is Python's
  \<open>str(e)\<close>; for a \<open>KeyError\<close> it is the \<open>repr\<close> of the key, which for these three
  keys is the key between single quotes.
\<close>

datatype dict_key = Key_output | Key_text | Key_content

fun key_name :: "dict_key \<Rightarrow> string" where
  "key_name Key_output = ''output''"
| "key_name Key_text = ''text''"
| "key_name Key_content = ''content''"

datatype py_exception = KeyError dict_key | AttributeError string | ClientError string

fun str :: "py_exception \<Rightarrow> string" where
  "str (KeyError k) = [CHR 0x27] @ key_name k @ [CHR 0x27]"
| "str (AttributeError d) = d"
| "str (ClientError d) = d"

section \<open>The generation request\<close>

text \<open>
  The module-level configuration: \<open>KB_ID\<close> and \<open>MODEL_ARN\<close> come from the environment,
  \<open>SYSTEM_PROMPT\<close> is the fixed template text.
\<close>

record config =
  KB_ID :: string
  MODEL_ARN :: string
  SYSTEM_PROMPT :: string

text \<open>
  The keyword arguments of \<open>client.retrieve_and_generate\<close>, one field per leaf of the
  nested dictionary. The two float literals are modelled as the decimal numbers they
  denote; the handler does no arithmetic on them.
\<close>

record generation_request =
  input_text :: string
  config_type :: string
  knowledgeBaseId :: string
  modelArn :: string
  textPromptTemplate :: string
  maxTokens :: int
  temperature :: real
  topP :: real
  stopSequences :: "string list"
  numberOfResults :: int

definition build_request :: "config \<Rightarrow> string \<Rightarrow> generation_request" where
  "build_request cfg user_message =
     \<lparr> input_text = user_message,
       config_type = ''KNOWLEDGE_BASE'',
       knowledgeBaseId = KB_ID cfg,
       modelArn = MODEL_ARN cfg,
       textPromptTemplate = SYSTEM_PROMPT cfg,
       maxTokens = 6000,
       temperature = 0.0,
       topP = 0.99,
       stopSequences = [],
       numberOfResults = 10 \<rparr>"

section \<open>The external result\<close>

text \<open>
  The result of the external call is a nested dictionary. Every key the handler reads is
  an optional field: \<open>None\<close> is a missing key.
\<close>

datatype content = Content (content_text: "string option")

datatype s3Location = S3Location (uri: "string option")

datatype location = Location (s3Location: "s3Location option")

datatype reference = Reference (ref_content: "content option") (ref_location: "location option")

datatype citation = Citation (retrievedReferences: "reference list option")

datatype generated = Generated (output_text: "string option")

datatype response =
  Response (resp_output: "generated option") (resp_citations: "citation list option")

section \<open>The client-facing payload\<close>

record source_entry =
  src_id :: int
  snippet :: string
  src_file :: string

datatype body = ErrorBody string | ChatBody string "source_entry list"

text \<open>The fields of the JSON body: \<open>None\<close> when the key is not in the object.\<close>

fun field_error :: "body \<Rightarrow> string option" where
  "field_error (ErrorBody e) = Some e"
| "field_error (ChatBody r s) = None"

fun field_reply :: "body \<Rightarrow> string option" where
  "field_reply (ErrorBody e) = None"
| "field_reply (ChatBody r s) = Some r"

fun field_sources :: "body \<Rightarrow> source_entry list option" where
  "field_sources (ErrorBody e) = None"
| "field_sources (ChatBody r s) = Some s"

text \<open>
  What a call of the handler ends in: a response with its status code, or an exception
  that leaves the handler.
\<close>

datatype outcome = Responded nat body | Raised py_exception

section \<open>Response shaping\<close>

definition greeting_keywords :: "string list" where
  "greeting_keywords =
     [''hi'', ''hello'', ''hii'', ''hey'', ''good morning'', ''good afternoon'',
      ''good evening'', ''what is your name'', ''who are you'', ''what can you do'',
      ''your name'', ''how are you'']"

definition is_greeting :: "string \<Rightarrow> bool" where
  "is_greeting user_message =
     (let user_lower = strip (lower user_message)
      in list_ex (\<lambda>keyword. py_in keyword user_lower) greeting_keywords)"

text \<open>The body of the inner loop: one reference, under the citation number \<open>i\<close>.\<close>

definition get_text :: "content \<Rightarrow> string" where
  "get_text c = (case content_text c of None \<Rightarrow> [] | Some t \<Rightarrow> t)"

definition get_uri :: "reference \<Rightarrow> string" where
  "get_uri ref =
     (case ref_location ref of
        None \<Rightarrow> ''N/A''
      | Some l \<Rightarrow>
          (case s3Location l of
             None \<Rightarrow> ''N/A''
           | Some s \<Rightarrow> (case uri s of None \<Rightarrow> ''N/A'' | Some u \<Rightarrow> u)))"

definition shape_reference :: "int \<Rightarrow> reference \<Rightarrow> py_exception + source_entry" where
  "shape_reference i ref =
     (case ref_content ref of
        None \<Rightarrow> Inl (KeyError Key_content)
      | Some c \<Rightarrow>
          Inr \<lparr> src_id = i,
                snippet = take 500 (get_text c)
                          @ (if length (get_text c) > 500 then ''...'' else []),
                src_file = get_uri ref \<rparr>)"

text \<open>
  The two loops, appending to \<open>sources\<close>; an exception in the body ends both.
\<close>

fun inner_loop ::
  "int \<Rightarrow> reference list \<Rightarrow> source_entry list \<Rightarrow> py_exception + source_entry list" where
  "inner_loop i [] sources = Inr sources"
| "inner_loop i (ref # refs) sources =
     (case shape_reference i ref of
        Inl e \<Rightarrow> Inl e
      | Inr s \<Rightarrow> inner_loop i refs (sources @ [s]))"

definition get_references :: "citation \<Rightarrow> reference list" where
  "get_references c = (case retrievedReferences c of None \<Rightarrow> [] | Some rs \<Rightarrow> rs)"

definition get_citations :: "response \<Rightarrow> citation list" where
  "get_citations r = (case resp_citations r of None \<Rightarrow> [] | Some cs \<Rightarrow> cs)"

fun outer_loop ::
  "int \<Rightarrow> citation list \<Rightarrow> source_entry list \<Rightarrow> py_exception + source_entry list" where
  "outer_loop i [] sources = Inr sources"
| "outer_loop i (c # cs) sources =
     (case inner_loop i (get_references c) sources of
        Inl e \<Rightarrow> Inl e
      | Inr sources' \<Rightarrow> outer_loop (i + 1) cs sources')"

text \<open>The statements of the \<open>try\<close> block after the external call has returned.\<close>

definition shape :: "string \<Rightarrow> response \<Rightarrow> py_exception + body" where
  "shape user_message r =
     (case resp_output r of
        None \<Rightarrow> Inl (KeyError Key_output)
      | Some out \<Rightarrow>
          (case output_text out of
             None \<Rightarrow> Inl (KeyError Key_text)
           | Some bot_reply \<Rightarrow>
               if is_greeting user_message then Inr (ChatBody bot_reply [])
               else (case outer_loop 1 (get_citations r) [] of
                       Inl e \<Rightarrow> Inl e
                     | Inr sources \<Rightarrow> Inr (ChatBody bot_reply sources))))"

section \<open>The handler of POST /chat\<close>

text \<open>
  The \<open>message\<close> field of the request's JSON object: missing, a string, or a value of
  another JSON type, which has no \<open>strip\<close>.
\<close>

datatype message_field = Absent | Text string | NonText

text \<open>
  The external client is a function from the request to its result or the exception it
  raises. The handler returns the list of requests it sent to the client together with
  its outcome.
\<close>

definition chat ::
  "config \<Rightarrow> (generation_request \<Rightarrow> py_exception + response) \<Rightarrow> message_field
     \<Rightarrow> generation_request list \<times> outcome" where
  "chat cfg client m =
     (case m of
        NonText \<Rightarrow> ([], Raised (AttributeError ''strip''))
      | _ \<Rightarrow>
          (let user_message = strip (case m of Text s \<Rightarrow> s | _ \<Rightarrow> [])
           in if user_message = [] then ([], Responded 400 (ErrorBody ''Empty message''))
              else
                (let req = build_request cfg user_message
                 in ([req],
                     (case client req of
                        Inl e \<Rightarrow> Responded 500 (ErrorBody (str e))
                      | Inr r \<Rightarrow>
                          (case shape user_message r of
                             Inl e \<Rightarrow> Responded 500 (ErrorBody (str e))
                           | Inr b \<Rightarrow> Responded 200 b))))))"

section \<open>Example inputs\<close>

text \<open>
  A configuration, three results of the external service and three clients, used to run
  the handler on concrete requests. The first result has a citation with two references
  (texts of 200 and 600 characters, the second without a location), a citation without
  references, and a citation whose only reference has a content without text.
\<close>

definition example_config :: config where
  "example_config =
     \<lparr> KB_ID = ''KB1'', MODEL_ARN = ''arn:model'', SYSTEM_PROMPT = ''prompt'' \<rparr>"

definition example_response :: response where
  "example_response =
     Response (Some (Generated (Some ''<div>ok</div>'')))
       (Some [Citation (Some [Reference (Some (Content (Some (replicate 200 CHR ''a''))))
                                (Some (Location (Some (S3Location (Some ''s3://a''))))),
                              Reference (Some (Content (Some (replicate 600 CHR ''b''))))
                                None]),
              Citation None,
              Citation (Some [Reference (Some (Content None)) (Some (Location None))])])"

definition example_sources :: "source_entry list" where
  "example_sources =
     [\<lparr> src_id = 1, snippet = replicate 200 CHR ''a'', src_file = ''s3://a'' \<rparr>,
      \<lparr> src_id = 1, snippet = replicate 500 CHR ''b'' @ ''...'', src_file = ''N/A'' \<rparr>,
      \<lparr> src_id = 3, snippet = [], src_file = ''N/A'' \<rparr>]"

definition single_response :: response where
  "single_response =
     Response (Some (Generated (Some ''<div>ok</div>'')))
       (Some [Citation (Some [Reference (Some (Content (Some ''first''))) None]),
              Citation (Some [Reference (Some (Content (Some ''second''))) None]),
              Citation (Some [])])"

definition broken_response :: response where
  "broken_response =
     Response (Some (Generated (Some ''<div>ok</div>'')))
       (Some [Citation (Some [Reference None None])])"

definition example_client :: "generation_request \<Rightarrow> py_exception + response" where
  "example_client req = Inr example_response"

definition single_client :: "generation_request \<Rightarrow> py_exception + response" where
  "single_client req = Inr single_response"

definition broken_client :: "generation_request \<Rightarrow> py_exception + response" where
  "broken_client req = Inr broken_response"

definition failing_client :: "generation_request \<Rightarrow> py_exception + response" where
  "failing_client req = Inl (ClientError ''Read timeout on endpoint URL'')"

section \<open>Substrings and trimming\<close>

lemma startswith_iff: "startswith s k \<longleftrightarrow> (\<exists>t. s = k @ t)"
  by (induction s k rule: startswith.induct) auto

lemma py_in_iff: "py_in k s \<longleftrightarrow> (\<exists>p t. s = p @ k @ t)"
proof (induction s)
  case Nil
  then show ?case by auto
next
  case (Cons c cs)
  show ?case
  proof
    assume "py_in k (c # cs)"
    then consider "startswith (c # cs) k" | "py_in k cs" by auto
    then show "\<exists>p t. c # cs = p @ k @ t"
    proof cases
      case 1
      then obtain t where "c # cs = k @ t" by (auto simp: startswith_iff)
      then have "c # cs = [] @ k @ t" by simp
      then show ?thesis by blast
    next
      case 2
      then obtain p t where "cs = p @ k @ t" using Cons.IH by auto
      then have "c # cs = (c # p) @ k @ t" by simp
      then show ?thesis by blast
    qed
  next
    assume "\<exists>p t. c # cs = p @ k @ t"
    then obtain p t where pt: "c # cs = p @ k @ t" by auto
    show "py_in k (c # cs)"
    proof (cases p)
      case Nil
      with pt have "startswith (c # cs) k" by (auto simp: startswith_iff)
      then show ?thesis by simp
    next
      case (Cons a p')
      with pt have "cs = p' @ k @ t" by simp
      then have "py_in k cs" using Cons.IH by blast
      then show ?thesis by simp
    qed
  qed
qed

lemma is_greeting_iff:
  "is_greeting m \<longleftrightarrow> (\<exists>k \<in> set greeting_keywords. \<exists>p t. strip (lower m) = p @ k @ t)"
  by (simp add: is_greeting_def list_ex_iff py_in_iff)

lemma strip_all_space: "list_all isspace s \<Longrightarrow> strip s = []"
proof -
  assume "list_all isspace s"
  then have "dropWhile isspace s = []"
    by (simp add: list_all_iff)
  then show ?thesis
    unfolding strip_def by (simp only: rev.simps dropWhile.simps)
qed

section \<open>The loops\<close>

lemma shape_reference_id: "shape_reference i r = Inr s \<Longrightarrow> src_id s = i"
  by (auto simp: shape_reference_def split: option.splits)

text \<open>
  The inner loop returns exactly when the body succeeds on every reference, and then it
  has appended the entries in order.
\<close>

lemma inner_loop_Inr:
  "inner_loop i refs acc = Inr srcs \<longleftrightarrow>
     (\<exists>new. srcs = acc @ new \<and> map (shape_reference i) refs = map Inr new)"
proof (induction refs arbitrary: acc)
  case Nil
  then show ?case by auto
next
  case (Cons r refs)
  show ?case
  proof (cases "shape_reference i r")
    case (Inl e)
    then show ?thesis by (auto simp: map_eq_Cons_conv)
  next
    case (Inr s)
    then show ?thesis
      by (auto simp: Cons.IH map_eq_Cons_conv Cons_eq_map_conv)
  qed
qed

text \<open>The same for the outer loop, which numbers the citations from \<open>n\<close>.\<close>

lemma outer_loop_Inr:
  "outer_loop (int n) cs acc = Inr srcs \<longleftrightarrow>
     (\<exists>new. srcs = acc @ new \<and>
        concat (map (\<lambda>(j, c). map (shape_reference (int j)) (get_references c))
                    (enumerate n cs)) = map Inr new)"
proof (induction cs arbitrary: n acc)
  case Nil
  then show ?case by auto
next
  case (Cons c cs)
  have suc: "int n + 1 = int (Suc n)" by simp
  show ?case
  proof (cases "inner_loop (int n) (get_references c) acc")
    case (Inl e)
    then have "\<not> (\<exists>new1. map (shape_reference (int n)) (get_references c) = map Inr new1)"
      using inner_loop_Inr[of "int n" "get_references c" acc] by auto
    then have "\<not> (\<exists>new. map (shape_reference (int n)) (get_references c)
                 @ concat (map (\<lambda>(j, c). map (shape_reference (int j)) (get_references c))
                    (enumerate (Suc n) cs)) = map Inr new)"
      by (metis append_eq_map_conv)
    with Inl show ?thesis by simp
  next
    case (Inr mid)
    then obtain new1 where mid: "mid = acc @ new1"
      and m1: "map (shape_reference (int n)) (get_references c) = map Inr new1"
      using inner_loop_Inr[of "int n" "get_references c" acc mid] by auto
    have "outer_loop (int n) (c # cs) acc = outer_loop (int (Suc n)) cs mid"
      using Inr by (simp add: suc del: of_nat_Suc)
    also have "\<dots> = Inr srcs \<longleftrightarrow> (\<exists>new2. srcs = mid @ new2 \<and>
        concat (map (\<lambda>(j, c). map (shape_reference (int j)) (get_references c))
                    (enumerate (Suc n) cs)) = map Inr new2)"
      by (rule Cons.IH)
    finally show ?thesis
      apply (simp add: mid m1 del: of_nat_Suc)
      apply (auto simp: map_eq_append_conv append_eq_map_conv dest!: map_injective[OF _ inj_Inr])
      done
  qed
qed

section \<open>Snippets and locators\<close>

text \<open>
  C4. The snippet of a reference with text \<open>t\<close> is the first 500 characters of \<open>t\<close>,
  followed by \<open>...\<close> exactly when \<open>t\<close> has more than 500 characters: a text of exactly
  500 characters (and any shorter one) is left unchanged, a text of 501 or more characters
  gives its first 500 characters and the ellipsis, and no snippet is longer than 503
  characters.
\<close>

theorem snippet_truncation:
  "\<exists>e. shape_reference i (Reference (Some (Content (Some t))) loc) = Inr e
       \<and> snippet e = take 500 t @ (if 500 < length t then ''...'' else [])
       \<and> (length t = 500 \<longrightarrow> snippet e = t)
       \<and> (length t \<le> 500 \<longrightarrow> snippet e = t)
       \<and> (501 \<le> length t \<longrightarrow> snippet e = take 500 t @ ''...'')
       \<and> length (snippet e) \<le> 503"
  by (simp add: shape_reference_def get_text_def)

theorem snippet_truncation_witness:
  "(\<exists>e. shape_reference 1 (Reference (Some (Content (Some (replicate 500 CHR ''a'')))) None) = Inr e
       \<and> snippet e = replicate 500 CHR ''a'')
   \<and> (\<exists>e. shape_reference 1 (Reference (Some (Content (Some (replicate 501 CHR ''a'')))) None) = Inr e
       \<and> snippet e = replicate 500 CHR ''a'' @ ''...'' \<and> length (snippet e) = 503)"
  using snippet_truncation [of 1 "replicate 500 CHR ''a''" None]
    snippet_truncation [of 1 "replicate 501 CHR ''a''" None]
  by auto

text \<open>
  C7. The \<open>file\<close> of a source entry is the literal \<open>N/A\<close> when the reference has no
  location, the location has no \<open>s3Location\<close>, or that has no \<open>uri\<close>; otherwise it is
  the \<open>uri\<close> unchanged.
\<close>

theorem missing_locator:
  "get_uri (Reference c None) = ''N/A''
   \<and> get_uri (Reference c (Some (Location None))) = ''N/A''
   \<and> get_uri (Reference c (Some (Location (Some (S3Location None))))) = ''N/A''
   \<and> get_uri (Reference c (Some (Location (Some (S3Location (Some u)))))) = u
   \<and> (shape_reference i ref = Inr e \<longrightarrow> src_file e = get_uri ref)"
  by (auto simp: get_uri_def shape_reference_def split: option.splits)

theorem missing_locator_witness:
  "shape_reference 2 (Reference (Some (Content (Some ''text''))) None)
     = Inr \<lparr> src_id = 2, snippet = ''text'', src_file = ''N/A'' \<rparr>
   \<and> src_file \<lparr> src_id = 2, snippet = ''text'', src_file = ''N/A'' \<rparr>
     = get_uri (Reference (Some (Content (Some ''text''))) None)
   \<and> get_uri (Reference (Some (Content (Some ''text''))) None) = ''N/A''"
proof -
  have h: "shape_reference 2 (Reference (Some (Content (Some ''text''))) None)
     = Inr \<lparr> src_id = 2, snippet = ''text'', src_file = ''N/A'' \<rparr>"
    by (simp add: shape_reference_def get_text_def get_uri_def)
  show ?thesis
    using h missing_locator [of "Some (Content (Some ''text''))" "''x''" 2
        "Reference (Some (Content (Some ''text''))) None"
        "\<lparr> src_id = 2, snippet = ''text'', src_file = ''N/A'' \<rparr>"]
    by blast
qed

section \<open>The handler\<close>

text \<open>
  C5. When the \<open>message\<close> field is missing, or is empty after trimming (in particular
  when it is whitespace only), the handler answers 400 with the error
  \<open>Empty message\<close>, and no request is sent to the external service.
\<close>

theorem empty_message:
  "chat cfg client Absent = ([], Responded 400 (ErrorBody ''Empty message''))
   \<and> (strip s = [] \<longrightarrow>
        chat cfg client (Text s) = ([], Responded 400 (ErrorBody ''Empty message'')))
   \<and> (list_all isspace s \<longrightarrow>
        chat cfg client (Text s) = ([], Responded 400 (ErrorBody ''Empty message'')))"
  using strip_all_space [of s] by (auto simp: chat_def strip_def)

theorem empty_message_witness:
  "strip [CHR 0x20, CHR 0x09, CHR 0x0A, CHR 0x20] = []
   \<and> list_all isspace [CHR 0x20, CHR 0x09, CHR 0x0A, CHR 0x20]
   \<and> chat example_config example_client (Text [CHR 0x20, CHR 0x09, CHR 0x0A, CHR 0x20])
       = ([], Responded 400 (ErrorBody ''Empty message''))"
proof -
  have h: "strip [CHR 0x20, CHR 0x09, CHR 0x0A, CHR 0x20] = []"
    by code_simp
  have g: "list_all isspace [CHR 0x20, CHR 0x09, CHR 0x0A, CHR 0x20]"
    by code_simp
  show ?thesis
    using h g empty_message [of example_config example_client
        "[CHR 0x20, CHR 0x09, CHR 0x0A, CHR 0x20]"]
    by simp
qed

text \<open>
  C8. For a message that is not empty after trimming, the handler sends one request to
  the external service; its input text is the trimmed message unchanged, and it carries
  \<open>maxTokens\<close> 6000, \<open>temperature\<close> 0.0, \<open>topP\<close> 0.99, no stop sequences and
  \<open>numberOfResults\<close> 10, whatever the message is.
\<close>

theorem request_constants:
  assumes "strip raw \<noteq> []"
  shows "\<exists>req. fst (chat cfg client (Text raw)) = [req]
           \<and> input_text req = strip raw
           \<and> maxTokens req = 6000 \<and> temperature req = 0 \<and> topP req = 99 / 100
           \<and> stopSequences req = [] \<and> numberOfResults req = 10"
  using assms by (simp add: chat_def Let_def build_request_def)

theorem request_constants_witness:
  "strip '' What are <b>POSP</b> KYC rules? '' \<noteq> []
   \<and> (\<exists>req. fst (chat example_config example_client (Text '' What are <b>POSP</b> KYC rules? '')) = [req]
           \<and> input_text req = ''What are <b>POSP</b> KYC rules?''
           \<and> maxTokens req = 6000 \<and> temperature req = 0 \<and> topP req = 99 / 100
           \<and> stopSequences req = [] \<and> numberOfResults req = 10)"
proof -
  have h: "strip '' What are <b>POSP</b> KYC rules? '' = ''What are <b>POSP</b> KYC rules?''"
    by code_simp
  then have n: "strip '' What are <b>POSP</b> KYC rules? '' \<noteq> []" by simp
  show ?thesis
    using n request_constants [OF n, of example_config example_client] unfolding h
    by simp
qed

section \<open>The handler on the example inputs\<close>

lemma example_strip: "strip ''What are POSP KYC rules?'' = ''What are POSP KYC rules?''"
  by code_simp

lemma example_not_greeting: "\<not> is_greeting ''What are POSP KYC rules?''"
  by code_simp

lemma example_shape:
  "shape ''What are POSP KYC rules?'' example_response
     = Inr (ChatBody ''<div>ok</div>'' example_sources)"
  by code_simp

lemma example_chat:
  "chat example_config example_client (Text ''What are POSP KYC rules?'')
     = ([build_request example_config ''What are POSP KYC rules?''],
        Responded 200 (ChatBody ''<div>ok</div>'' example_sources))"
  by (simp add: chat_def example_strip example_shape example_client_def)

lemma single_shape:
  "shape ''What are POSP KYC rules?'' single_response
     = Inr (ChatBody ''<div>ok</div>''
         [\<lparr> src_id = 1, snippet = ''first'', src_file = ''N/A'' \<rparr>,
          \<lparr> src_id = 2, snippet = ''second'', src_file = ''N/A'' \<rparr>])"
  by code_simp

lemma broken_shape:
  "shape ''What are POSP KYC rules?'' broken_response = Inl (KeyError Key_content)"
  by code_simp

lemma greeting_strip: "strip ''Explain this clause'' = ''Explain this clause''"
  by code_simp

lemma greeting_lower: "strip (lower ''Explain this clause'') = ''explain this clause''"
  by code_simp

section \<open>Failures\<close>

text \<open>
  C6. A failure raised by the external call, or while the result is shaped, gives the
  response 500 whose body has the failure's description \<open>str(e)\<close> as its \<open>error\<close> and
  has neither \<open>reply\<close> nor \<open>sources\<close>. The external service has been called once, and
  the response is the same function of the description for every kind of failure.
\<close>

theorem failures_are_500:
  assumes "strip raw \<noteq> []"
  shows "(client (build_request cfg (strip raw)) = Inl e \<longrightarrow>
            chat cfg client (Text raw)
              = ([build_request cfg (strip raw)], Responded 500 (ErrorBody (str e))))
       \<and> (client (build_request cfg (strip raw)) = Inr r \<and> shape (strip raw) r = Inl e \<longrightarrow>
            chat cfg client (Text raw)
              = ([build_request cfg (strip raw)], Responded 500 (ErrorBody (str e))))
       \<and> field_error (ErrorBody (str e)) = Some (str e)
       \<and> field_reply (ErrorBody (str e)) = None
       \<and> field_sources (ErrorBody (str e)) = None"
  using assms by (simp add: chat_def Let_def)

theorem failures_are_500_witness:
  "strip ''What are POSP KYC rules?'' \<noteq> []
   \<and> failing_client (build_request example_config (strip ''What are POSP KYC rules?''))
       = Inl (ClientError ''Read timeout on endpoint URL'')
   \<and> chat example_config failing_client (Text ''What are POSP KYC rules?'')
       = ([build_request example_config (strip ''What are POSP KYC rules?'')],
          Responded 500 (ErrorBody (str (ClientError ''Read timeout on endpoint URL''))))
   \<and> str (ClientError ''Read timeout on endpoint URL'') = ''Read timeout on endpoint URL''
   \<and> broken_client (build_request example_config (strip ''What are POSP KYC rules?''))
       = Inr broken_response
   \<and> shape (strip ''What are POSP KYC rules?'') broken_response = Inl (KeyError Key_content)
   \<and> chat example_config broken_client (Text ''What are POSP KYC rules?'')
       = ([build_request example_config (strip ''What are POSP KYC rules?'')],
          Responded 500 (ErrorBody (str (KeyError Key_content))))
   \<and> str (KeyError Key_content) = [CHR 0x27] @ ''content'' @ [CHR 0x27]"
proof -
  have h1: "strip ''What are POSP KYC rules?'' \<noteq> []"
    by (simp add: example_strip)
  have h2: "failing_client (build_request example_config (strip ''What are POSP KYC rules?''))
       = Inl (ClientError ''Read timeout on endpoint URL'')"
    by (simp add: failing_client_def)
  have h3: "broken_client (build_request example_config (strip ''What are POSP KYC rules?''))
       = Inr broken_response"
    by (simp add: broken_client_def)
  have h4: "shape (strip ''What are POSP KYC rules?'') broken_response
       = Inl (KeyError Key_content)"
    by (simp add: example_strip broken_shape)
  have s1: "str (ClientError ''Read timeout on endpoint URL'') = ''Read timeout on endpoint URL''"
    and s2: "str (KeyError Key_content) = [CHR 0x27] @ ''content'' @ [CHR 0x27]"
    by simp_all
  from failures_are_500[OF h1, of failing_client example_config
        "ClientError ''Read timeout on endpoint URL''"]
    failures_are_500[OF h1, of broken_client example_config "KeyError Key_content"
        broken_response]
    h1 h2 h3 h4 s1 s2
  show ?thesis by blast
qed

section \<open>Greetings\<close>

text \<open>
  C3. When the message is not empty after trimming and its lowercased, trimmed form
  contains one of the twelve greeting strings as a substring (anywhere, also inside a
  word), the sources of the response are empty, whatever citations the external result
  has: a result with a generated text gives the response 200 with that text and no
  sources, and no response of the handler carries a source.
\<close>

theorem greeting_sources_empty:
  assumes "strip raw \<noteq> []"
    and "k \<in> set greeting_keywords"
    and "strip (lower (strip raw)) = p @ k @ t"
  shows "(client (build_request cfg (strip raw)) = Inr r
            \<and> resp_output r = Some (Generated (Some reply)) \<longrightarrow>
          chat cfg client (Text raw)
            = ([build_request cfg (strip raw)], Responded 200 (ChatBody reply [])))
       \<and> (chat cfg client (Text raw) = (calls, Responded code (ChatBody reply' sources)) \<longrightarrow>
          sources = [])"
proof -
  have g: "is_greeting (strip raw)"
    unfolding is_greeting_iff using assms(2,3) by blast
  show ?thesis
    using assms(1) g
    by (auto simp: chat_def Let_def shape_def split: sum.splits option.splits)
qed

theorem greeting_sources_empty_witness:
  "strip ''Explain this clause'' \<noteq> []
   \<and> ''hi'' \<in> set greeting_keywords
   \<and> strip (lower (strip ''Explain this clause'')) = ''explain t'' @ ''hi'' @ ''s clause''
   \<and> example_client (build_request example_config (strip ''Explain this clause''))
       = Inr example_response
   \<and> resp_output example_response = Some (Generated (Some ''<div>ok</div>''))
   \<and> length (get_citations example_response) = 3
   \<and> chat example_config example_client (Text ''Explain this clause'')
       = ([build_request example_config (strip ''Explain this clause'')],
          Responded 200 (ChatBody ''<div>ok</div>'' []))"
proof -
  have h1: "strip ''Explain this clause'' \<noteq> []"
    by (simp add: greeting_strip)
  have h2: "''hi'' \<in> set greeting_keywords"
    by (simp add: greeting_keywords_def)
  have h3: "strip (lower (strip ''Explain this clause'')) = ''explain t'' @ ''hi'' @ ''s clause''"
    by (simp add: greeting_strip greeting_lower)
  have h4: "example_client (build_request example_config (strip ''Explain this clause''))
       = Inr example_response"
    by (simp add: example_client_def)
  have h5: "resp_output example_response = Some (Generated (Some ''<div>ok</div>''))"
    by (simp add: example_response_def)
  have n: "length (get_citations example_response) = 3"
    by (simp add: get_citations_def example_response_def)
  from greeting_sources_empty[OF h1 h2 h3, of example_client example_config example_response
      "''<div>ok</div>''"] h1 h2 h3 h4 h5 n
  show ?thesis by blast
qed

section \<open>The ids of the sources\<close>

lemma inner_ids:
  "map (shape_reference i) refs = map Inr new \<Longrightarrow> map src_id new = replicate (length refs) i"
proof (induction refs arbitrary: new)
  case Nil
  then show ?case by simp
next
  case (Cons r refs)
  then obtain s new' where new: "new = s # new'" and s: "shape_reference i r = Inr s"
    and rest: "map (shape_reference i) refs = map Inr new'"
    by (auto simp: Cons_eq_map_conv)
  from Cons.IH[OF rest] shape_reference_id[OF s] new show ?case by simp
qed

lemma outer_ids:
  "concat (map (\<lambda>(j, c). map (shape_reference (int j)) (get_references c)) (enumerate n cs))
     = map Inr new
   \<Longrightarrow> map src_id new
       = concat (map (\<lambda>(j, c). replicate (length (get_references c)) (int j)) (enumerate n cs))"
proof (induction cs arbitrary: n new)
  case Nil
  then show ?case by simp
next
  case (Cons c cs)
  from Cons.prems obtain new1 new2 where new: "new = new1 @ new2"
    and h1: "map (shape_reference (int n)) (get_references c) = map Inr new1"
    and h2: "concat (map (\<lambda>(j, c). map (shape_reference (int j)) (get_references c))
               (enumerate (Suc n) cs)) = map Inr new2"
    by (auto simp: append_eq_map_conv)
  from inner_ids[OF h1] Cons.IH[OF h2] new show ?case by simp
qed

lemma ids_length:
  "length (concat (map (\<lambda>(j, c). replicate (length (get_references c)) (int j)) (enumerate n cs)))
     = sum_list (map (\<lambda>c. length (get_references c)) cs)"
  by (induction cs arbitrary: n) auto

lemma ids_bounds:
  "x \<in> set (concat (map (\<lambda>(j, c). replicate (length (get_references c)) (int j)) (enumerate n cs)))
   \<Longrightarrow> int n \<le> x \<and> x < int n + int (length cs)"
proof (induction cs arbitrary: n)
  case Nil
  then show ?case by simp
next
  case (Cons c cs)
  from Cons.prems consider "x = int n"
    | "x \<in> set (concat (map (\<lambda>(j, c). replicate (length (get_references c)) (int j))
                  (enumerate (Suc n) cs)))"
    by auto
  then show ?case
  proof cases
    case 1
    then show ?thesis by simp
  next
    case 2
    from Cons.IH[OF 2] show ?thesis by simp
  qed
qed

lemma ids_sorted:
  "sorted (concat (map (\<lambda>(j, c). replicate (length (get_references c)) (int j)) (enumerate n cs)))"
proof (induction cs arbitrary: n)
  case Nil
  then show ?case by simp
next
  case (Cons c cs)
  have "\<And>y. y \<in> set (concat (map (\<lambda>(j, c). replicate (length (get_references c)) (int j))
                  (enumerate (Suc n) cs))) \<Longrightarrow> int n \<le> y"
    using ids_bounds[of _ "Suc n" cs] by fastforce
  with Cons.IH[of "Suc n"] show ?case
    by (auto simp: sorted_append)
qed

text \<open>
  The ids are the numbers \<open>n\<close>, \<open>n + 1\<close>, ... without repetition or gap exactly when the
  citations that hold them are the first ones, with one reference each.
\<close>

lemma ids_sequential_iff:
  "concat (map (\<lambda>(j, c). replicate (length (get_references c)) (int j)) (enumerate n cs))
     = map int [n..<n + m]
   \<longleftrightarrow> map (\<lambda>c. length (get_references c)) cs = replicate m 1 @ replicate (length cs - m) 0"
proof (induction cs arbitrary: n m)
  case Nil
  then show ?case by auto
next
  case (Cons c cs)
  let ?rest = "concat (map (\<lambda>(j, c). replicate (length (get_references c)) (int j))
                 (enumerate (Suc n) cs))"
  have above: "int n \<notin> set ?rest"
    using ids_bounds[of "int n" "Suc n" cs] by auto
  show ?case
  proof (cases m)
    case 0
    have ih: "?rest = [] \<longleftrightarrow>
        map (\<lambda>c. length (get_references c)) cs = replicate (length cs) 0"
      using Cons.IH[of "Suc n" 0] by (simp del: concat_eq_Nil_conv)
    have "replicate (length (get_references c)) (int n) @ ?rest = [] \<longleftrightarrow>
        length (get_references c) = 0 \<and> ?rest = []"
      by (simp del: concat_eq_Nil_conv)
    with 0 ih show ?thesis
      by (simp del: concat_eq_Nil_conv)
  next
    case (Suc m')
    have upt: "map int [n..<n + Suc m'] = int n # map int [Suc n..<Suc n + m']"
      by (simp add: upt_conv_Cons del: upt_Suc of_nat_Suc)
    consider "length (get_references c) = 0" | "length (get_references c) = 1"
      | k where "length (get_references c) = Suc (Suc k)"
      by (metis One_nat_def not0_implies_Suc)
    then show ?thesis
    proof cases
      case 1
      have "?rest \<noteq> int n # map int [Suc n..<Suc n + m']"
        using above by (metis list.set_intros(1))
      with 1 Suc upt show ?thesis by (simp del: upt_Suc of_nat_Suc)
    next
      case 2
      with Suc upt Cons.IH[of "Suc n" m'] show ?thesis
        by (simp del: upt_Suc of_nat_Suc)
    next
      case 3
      have "int n \<notin> set (map int [Suc n..<Suc n + m'])" by auto
      then have "int n # xs \<noteq> map int [Suc n..<Suc n + m']" for xs
        by (metis list.set_intros(1))
      with 3 Suc upt show ?thesis by (simp del: upt_Suc of_nat_Suc)
    qed
  qed
qed

lemma chat_ok_cases:
  assumes "chat cfg client (Text raw) = (calls, Responded code (ChatBody reply sources))"
  shows "strip raw \<noteq> [] \<and> calls = [build_request cfg (strip raw)] \<and> code = 200
         \<and> (\<exists>r. client (build_request cfg (strip raw)) = Inr r
                \<and> shape (strip raw) r = Inr (ChatBody reply sources))"
  using assms by (auto simp: chat_def Let_def split: if_splits sum.splits)

lemma shape_not_greeting:
  assumes "shape m r = Inr (ChatBody reply sources)" and "\<not> is_greeting m"
  shows "outer_loop 1 (get_citations r) [] = Inr sources"
  using assms by (auto simp: shape_def split: option.splits sum.splits)

lemma chat_sources_ids:
  assumes "\<not> is_greeting (strip raw)"
    and "client (build_request cfg (strip raw)) = Inr r"
    and "chat cfg client (Text raw) = (calls, Responded code (ChatBody reply sources))"
  shows "map Inr sources
         = concat (map (\<lambda>(j, c). map (shape_reference (int j)) (get_references c))
                    (enumerate 1 (get_citations r)))"
proof -
  from chat_ok_cases[OF assms(3)] assms(2)
  have "shape (strip raw) r = Inr (ChatBody reply sources)" by auto
  from shape_not_greeting[OF this assms(1)]
  have "outer_loop (int 1) (get_citations r) [] = Inr sources" by simp
  then show ?thesis unfolding outer_loop_Inr by auto
qed

text \<open>
  The loops fail only on a reference without \<open>content\<close>: a result with a generated
  text whose references all have one gives the response 200.
\<close>

lemma inner_loop_total:
  "\<forall>ref \<in> set refs. ref_content ref \<noteq> None \<Longrightarrow> \<exists>srcs. inner_loop i refs acc = Inr srcs"
  by (induction refs arbitrary: acc) (auto simp: shape_reference_def)

lemma outer_loop_total:
  "\<forall>c \<in> set cs. \<forall>ref \<in> set (get_references c). ref_content ref \<noteq> None
   \<Longrightarrow> \<exists>srcs. outer_loop i cs acc = Inr srcs"
proof (induction cs arbitrary: i acc)
  case Nil
  then show ?case by simp
next
  case (Cons c cs)
  then obtain mid where "inner_loop i (get_references c) acc = Inr mid"
    using inner_loop_total[of "get_references c" i acc] by auto
  with Cons show ?case by simp
qed

lemma chat_succeeds:
  assumes "strip raw \<noteq> []" and "\<not> is_greeting (strip raw)"
    and "client (build_request cfg (strip raw)) = Inr r"
    and "resp_output r = Some (Generated (Some reply))"
    and "\<forall>c \<in> set (get_citations r). \<forall>ref \<in> set (get_references c). ref_content ref \<noteq> None"
  shows "\<exists>sources. chat cfg client (Text raw)
           = ([build_request cfg (strip raw)], Responded 200 (ChatBody reply sources))"
proof -
  from outer_loop_total[OF assms(5)] obtain sources
    where "outer_loop 1 (get_citations r) [] = Inr sources" by blast
  with assms(1-4) show ?thesis
    by (simp add: chat_def Let_def shape_def)
qed

text \<open>
  C1. For a message that is no greeting, the sources of a successful response are the
  references of all citations of the external result, flattened in encounter order
  (citations in their order, references in their order within a citation), each shaped
  under the 1-based number of its citation: there are as many sources as references, and
  the id of every source is the number of its citation, so the references of one
  citation share an id.
\<close>

theorem sources_per_citation:
  assumes "\<not> is_greeting (strip raw)"
    and "client (build_request cfg (strip raw)) = Inr r"
    and "chat cfg client (Text raw) = (calls, Responded code (ChatBody reply sources))"
  shows "map Inr sources
           = concat (map (\<lambda>(j, c). map (shape_reference (int j)) (get_references c))
                      (enumerate 1 (get_citations r)))
       \<and> length sources = sum_list (map (\<lambda>c. length (get_references c)) (get_citations r))
       \<and> map src_id sources
           = concat (map (\<lambda>(j, c). replicate (length (get_references c)) (int j))
                      (enumerate 1 (get_citations r)))"
proof -
  have a: "map Inr sources
           = concat (map (\<lambda>(j, c). map (shape_reference (int j)) (get_references c))
                      (enumerate 1 (get_citations r)))"
    by (rule chat_sources_ids[OF assms])
  have b: "map src_id sources
           = concat (map (\<lambda>(j, c). replicate (length (get_references c)) (int j))
                      (enumerate 1 (get_citations r)))"
    by (rule outer_ids[OF a[symmetric]])
  have "length sources = length (map src_id sources)" by simp
  also have "\<dots> = sum_list (map (\<lambda>c. length (get_references c)) (get_citations r))"
    unfolding b by (rule ids_length)
  finally show ?thesis using a b by simp
qed

theorem sources_per_citation_witness:
  "\<not> is_greeting (strip ''What are POSP KYC rules?'')
   \<and> example_client (build_request example_config (strip ''What are POSP KYC rules?''))
       = Inr example_response
   \<and> chat example_config example_client (Text ''What are POSP KYC rules?'')
       = ([build_request example_config ''What are POSP KYC rules?''],
          Responded 200 (ChatBody ''<div>ok</div>'' example_sources))
   \<and> length example_sources
       = sum_list (map (\<lambda>c. length (get_references c)) (get_citations example_response))
   \<and> length example_sources = 3
   \<and> map src_id example_sources
       = concat (map (\<lambda>(j, c). replicate (length (get_references c)) (int j))
                  (enumerate 1 (get_citations example_response)))
   \<and> map src_id example_sources = [1, 1, 3]"
proof -
  have h1: "\<not> is_greeting (strip ''What are POSP KYC rules?'')"
    by (simp add: example_strip example_not_greeting)
  have h2: "example_client (build_request example_config (strip ''What are POSP KYC rules?''))
       = Inr example_response"
    by (simp add: example_client_def)
  have h3: "chat example_config example_client (Text ''What are POSP KYC rules?'')
       = ([build_request example_config ''What are POSP KYC rules?''],
          Responded 200 (ChatBody ''<div>ok</div>'' example_sources))"
    by (rule example_chat)
  have n: "length example_sources = 3" and i: "map src_id example_sources = [1, 1, 3]"
    by (simp_all add: example_sources_def)
  from sources_per_citation[OF h1 h2 h3] h1 h2 h3 n i show ?thesis by blast
qed

text \<open>
  C2. The ids are not a running count of the references: the example result, whose first
  citation has two references and whose second has none, gives the ids 1, 1, 3. In every
  response to a message that is no greeting, the id of a source is the 1-based number of
  its enclosing citation: the ids in list order are each citation's number, repeated once
  for each of its references. The \<open>k\<close>-th source has the id \<open>k\<close>, for every \<open>k\<close>, exactly
  when the first citations hold one reference each and the remaining ones none, as many
  of the first kind as there are sources.
\<close>

theorem ids_citation_ordinal:
  assumes "\<not> is_greeting (strip raw)"
    and "client (build_request cfg (strip raw)) = Inr r"
    and "chat cfg client (Text raw) = (calls, Responded code (ChatBody reply sources))"
  shows "map src_id sources
           = concat (map (\<lambda>(j, c). replicate (length (get_references c)) (int j))
                      (enumerate 1 (get_citations r)))
       \<and> (map src_id sources = map int [1..<Suc (length sources)]
            \<longleftrightarrow> map (\<lambda>c. length (get_references c)) (get_citations r)
                  = replicate (length sources) 1
                    @ replicate (length (get_citations r) - length sources) 0)"
proof -
  have b: "map src_id sources
           = concat (map (\<lambda>(j, c). replicate (length (get_references c)) (int j))
                      (enumerate 1 (get_citations r)))"
    by (rule outer_ids[OF chat_sources_ids[OF assms, symmetric]])
  have "map src_id sources = map int [1..<1 + length sources]
        \<longleftrightarrow> map (\<lambda>c. length (get_references c)) (get_citations r)
              = replicate (length sources) 1
                @ replicate (length (get_citations r) - length sources) 0"
    unfolding b by (rule ids_sequential_iff)
  with b show ?thesis by (simp only: plus_1_eq_Suc)
qed

theorem ids_citation_ordinal_witness:
  "\<not> is_greeting (strip ''What are POSP KYC rules?'')
   \<and> single_client (build_request example_config (strip ''What are POSP KYC rules?''))
       = Inr single_response
   \<and> chat example_config single_client (Text ''What are POSP KYC rules?'')
       = ([build_request example_config ''What are POSP KYC rules?''],
          Responded 200 (ChatBody ''<div>ok</div>''
            [\<lparr> src_id = 1, snippet = ''first'', src_file = ''N/A'' \<rparr>,
             \<lparr> src_id = 2, snippet = ''second'', src_file = ''N/A'' \<rparr>]))
   \<and> map src_id [\<lparr> src_id = 1, snippet = ''first'', src_file = ''N/A'' \<rparr>,
                  \<lparr> src_id = 2, snippet = ''second'', src_file = ''N/A'' \<rparr>]
       = concat (map (\<lambda>(j, c). replicate (length (get_references c)) (int j))
                  (enumerate 1 (get_citations single_response)))
   \<and> map src_id [\<lparr> src_id = 1, snippet = ''first'', src_file = ''N/A'' \<rparr>,
                  \<lparr> src_id = 2, snippet = ''second'', src_file = ''N/A'' \<rparr>]
       = map int [1..<Suc 2]
   \<and> map (\<lambda>c. length (get_references c)) (get_citations single_response)
       = replicate 2 1 @ replicate (length (get_citations single_response) - 2) 0
   \<and> length (get_citations single_response) = 3"
proof -
  have h1: "\<not> is_greeting (strip ''What are POSP KYC rules?'')"
    by (simp add: example_strip example_not_greeting)
  have h2: "single_client (build_request example_config (strip ''What are POSP KYC rules?''))
       = Inr single_response"
    by (simp add: single_client_def)
  have h3: "chat example_config single_client (Text ''What are POSP KYC rules?'')
       = ([build_request example_config ''What are POSP KYC rules?''],
          Responded 200 (ChatBody ''<div>ok</div>''
            [\<lparr> src_id = 1, snippet = ''first'', src_file = ''N/A'' \<rparr>,
             \<lparr> src_id = 2, snippet = ''second'', src_file = ''N/A'' \<rparr>]))"
    by (simp add: chat_def example_strip single_shape single_client_def)
  have s: "map src_id [\<lparr> src_id = 1, snippet = ''first'', src_file = ''N/A'' \<rparr>,
                  \<lparr> src_id = 2, snippet = ''second'', src_file = ''N/A'' \<rparr>]
       = map int [1..<Suc 2]"
    by (simp add: upt_conv_Cons)
  have l: "length [\<lparr> src_id = 1, snippet = ''first'', src_file = ''N/A'' \<rparr>,
                  \<lparr> src_id = 2, snippet = ''second'', src_file = ''N/A'' \<rparr>] = 2"
    by simp
  have n: "length (get_citations single_response) = 3"
    by (simp add: get_citations_def single_response_def)
  from ids_citation_ordinal[OF h1 h2 h3] h1 h2 h3 s n show ?thesis
    unfolding l by blast
qed

theorem sequential_ids_counterexample:
  "\<not> is_greeting (strip ''What are POSP KYC rules?'')
   \<and> chat example_config example_client (Text ''What are POSP KYC rules?'')
       = ([build_request example_config ''What are POSP KYC rules?''],
          Responded 200 (ChatBody ''<div>ok</div>'' example_sources))
   \<and> map src_id example_sources = [1, 1, 3]
   \<and> map src_id example_sources \<noteq> [1, 2, 3]"
  by (simp add: example_strip example_not_greeting example_chat example_sources_def)

text \<open>
  C10. In a successful response to a message that is no greeting, the ids of the sources
  are non-decreasing in list order, and each lies between 1 and the number of citations
  of the external result.
\<close>

theorem ids_nondecreasing:
  assumes "\<not> is_greeting (strip raw)"
    and "client (build_request cfg (strip raw)) = Inr r"
    and "chat cfg client (Text raw) = (calls, Responded code (ChatBody reply sources))"
  shows "sorted (map src_id sources)
       \<and> (\<forall>s \<in> set sources. 1 \<le> src_id s \<and> src_id s \<le> int (length (get_citations r)))"
proof -
  have b: "map src_id sources
           = concat (map (\<lambda>(j, c). replicate (length (get_references c)) (int j))
                      (enumerate 1 (get_citations r)))"
    by (rule outer_ids[OF chat_sources_ids[OF assms, symmetric]])
  have "sorted (map src_id sources)" unfolding b by (rule ids_sorted)
  moreover have "1 \<le> src_id s \<and> src_id s \<le> int (length (get_citations r))"
    if "s \<in> set sources" for s
  proof -
    from that have "src_id s \<in> set (map src_id sources)" by simp
    then show ?thesis unfolding b using ids_bounds[of "src_id s" 1 "get_citations r"] by simp
  qed
  ultimately show ?thesis by blast
qed

theorem ids_nondecreasing_witness:
  "\<not> is_greeting (strip ''What are POSP KYC rules?'')
   \<and> example_client (build_request example_config (strip ''What are POSP KYC rules?''))
       = Inr example_response
   \<and> chat example_config example_client (Text ''What are POSP KYC rules?'')
       = ([build_request example_config ''What are POSP KYC rules?''],
          Responded 200 (ChatBody ''<div>ok</div>'' example_sources))
   \<and> sorted (map src_id example_sources)
   \<and> list_all (\<lambda>s. 1 \<le> src_id s \<and> src_id s \<le> int (length (get_citations example_response)))
        example_sources
   \<and> length (get_citations example_response) = 3"
proof -
  have h1: "\<not> is_greeting (strip ''What are POSP KYC rules?'')"
    by (simp add: example_strip example_not_greeting)
  have h2: "example_client (build_request example_config (strip ''What are POSP KYC rules?''))
       = Inr example_response"
    by (simp add: example_client_def)
  have h3: "chat example_config example_client (Text ''What are POSP KYC rules?'')
       = ([build_request example_config ''What are POSP KYC rules?''],
          Responded 200 (ChatBody ''<div>ok</div>'' example_sources))"
    by (rule example_chat)
  have n: "length (get_citations example_response) = 3"
    by (simp add: get_citations_def example_response_def)
  from ids_nondecreasing[OF h1 h2 h3] h1 h2 h3 n show ?thesis
    unfolding list_all_iff by blast
qed

section \<open>References without text\<close>

lemma flat_length:
  "length (concat (map (\<lambda>(j, c). map (shape_reference (int j)) (get_references c))
                    (enumerate n cs)))
     = sum_list (map (\<lambda>c. length (get_references c)) cs)"
  by (induction cs arbitrary: n) auto

lemma map_eq_split:
  "map f xs = ys @ y # zs
   \<Longrightarrow> \<exists>xs1 x xs2. xs = xs1 @ x # xs2 \<and> map f xs1 = ys \<and> f x = y \<and> map f xs2 = zs"
  by (auto simp: map_eq_append_conv map_eq_Cons_conv)

text \<open>
  C9. A reference whose content has no \<open>text\<close> does not make the shaping fail. The body
  of the loop yields an entry for it, with the empty snippet and no ellipsis. When the
  message is no greeting, the result has a generated text and every other reference has
  a content, the handler answers 200, and its sources hold exactly one entry for that
  reference, at the reference's place in the flattened order, with the number of its
  citation as id and the empty snippet.
\<close>

theorem missing_text:
  assumes "strip raw \<noteq> []" and "\<not> is_greeting (strip raw)"
    and "client (build_request cfg (strip raw)) = Inr r"
    and "resp_output r = Some (Generated (Some reply))"
    and "get_citations r = before @ [c] @ after"
    and "get_references c = pre @ [Reference (Some (Content None)) loc] @ post"
    and "\<forall>c' \<in> set (before @ after). \<forall>ref \<in> set (get_references c'). ref_content ref \<noteq> None"
    and "\<forall>ref \<in> set (pre @ post). ref_content ref \<noteq> None"
  shows "shape_reference i (Reference (Some (Content None)) loc)
           = Inr \<lparr> src_id = i, snippet = [],
                   src_file = get_uri (Reference (Some (Content None)) loc) \<rparr>
       \<and> (\<exists>srcs1 srcs2.
            chat cfg client (Text raw)
              = ([build_request cfg (strip raw)],
                 Responded 200 (ChatBody reply
                   (srcs1 @ [\<lparr> src_id = int (length before) + 1, snippet = [],
                               src_file = get_uri (Reference (Some (Content None)) loc) \<rparr>]
                          @ srcs2)))
            \<and> length srcs1
                = sum_list (map (\<lambda>c. length (get_references c)) before) + length pre
            \<and> length srcs2
                = length post + sum_list (map (\<lambda>c. length (get_references c)) after))"
proof -
  let ?R = "Reference (Some (Content None)) loc"
  let ?F = "\<lambda>(j, c). map (shape_reference (int j)) (get_references c)"
  let ?k = "Suc (length before)"
  let ?e = "\<lparr> src_id = int (length before) + 1, snippet = [], src_file = get_uri ?R \<rparr>"
  have body: "shape_reference j ?R = Inr \<lparr> src_id = j, snippet = [], src_file = get_uri ?R \<rparr>"
    for j
    by (simp add: shape_reference_def get_text_def)
  have all: "\<forall>c' \<in> set (get_citations r). \<forall>ref \<in> set (get_references c'). ref_content ref \<noteq> None"
    using assms(5-8) by auto
  have "\<exists>sources. chat cfg client (Text raw)
           = ([build_request cfg (strip raw)], Responded 200 (ChatBody reply sources))"
    using assms(1-4) all by (rule chat_succeeds)
  then obtain sources where
    ch: "chat cfg client (Text raw)
           = ([build_request cfg (strip raw)], Responded 200 (ChatBody reply sources))"
    by blast
  have flat: "map Inr sources = concat (map ?F (enumerate 1 (get_citations r)))"
    using assms(2,3) ch by (rule chat_sources_ids)
  let ?A = "concat (map ?F (enumerate 1 before))"
  let ?B = "concat (map ?F (enumerate (Suc ?k) after))"
  have enum: "enumerate 1 (get_citations r)
                = enumerate 1 before @ (?k, c) # enumerate (Suc ?k) after"
    by (simp add: assms(5) enumerate_append_eq)
  have "map Inr sources
          = (?A @ map (shape_reference (int ?k)) pre)
            @ Inr ?e # (map (shape_reference (int ?k)) post @ ?B)"
    unfolding flat enum using body[of "int ?k"] by (simp add: assms(6))
  from map_eq_split[OF this]
  obtain srcs1 s srcs2 where split: "sources = srcs1 @ s # srcs2"
    and m1: "map Inr srcs1 = ?A @ map (shape_reference (int ?k)) pre"
    and ms: "(Inr s :: py_exception + source_entry) = Inr ?e"
    and m2: "map Inr srcs2 = map (shape_reference (int ?k)) post @ ?B"
    by blast
  from m1 have "length (map (Inr :: source_entry \<Rightarrow> py_exception + source_entry) srcs1)
      = length (?A @ map (shape_reference (int ?k)) pre)"
    by (rule arg_cong)
  then have l1: "length srcs1
      = sum_list (map (\<lambda>c. length (get_references c)) before) + length pre"
    by (simp add: flat_length)
  from m2 have "length (map (Inr :: source_entry \<Rightarrow> py_exception + source_entry) srcs2)
      = length (map (shape_reference (int ?k)) post @ ?B)"
    by (rule arg_cong)
  then have l2: "length srcs2
      = length post + sum_list (map (\<lambda>c. length (get_references c)) after)"
    by (simp add: flat_length)
  from ms have "s = ?e" by simp
  with ch split l1 l2 body[of i] show ?thesis by auto
qed

theorem missing_text_witness:
  "strip ''What are POSP KYC rules?'' \<noteq> []
   \<and> \<not> is_greeting (strip ''What are POSP KYC rules?'')
   \<and> example_client (build_request example_config (strip ''What are POSP KYC rules?'')) = Inr example_response
   \<and> resp_output example_response = Some (Generated (Some ''<div>ok</div>''))
   \<and> get_citations example_response
       = [Citation (Some [Reference (Some (Content (Some (replicate 200 CHR ''a''))))
              (Some (Location (Some (S3Location (Some ''s3://a''))))),
            Reference (Some (Content (Some (replicate 600 CHR ''b'')))) None]),
          Citation None]
         @ [Citation (Some [Reference (Some (Content None)) (Some (Location None))])] @ []
   \<and> get_references (Citation (Some [Reference (Some (Content None)) (Some (Location None))]))
       = [] @ [Reference (Some (Content None)) (Some (Location None))] @ []
   \<and> list_all (\<lambda>c'. list_all (\<lambda>ref. ref_content ref \<noteq> None) (get_references c'))
        ([Citation (Some [Reference (Some (Content (Some (replicate 200 CHR ''a''))))
              (Some (Location (Some (S3Location (Some ''s3://a''))))),
            Reference (Some (Content (Some (replicate 600 CHR ''b'')))) None]),
          Citation None] @ [])
   \<and> (\<exists>srcs1 srcs2.
        chat example_config example_client (Text ''What are POSP KYC rules?'')
          = ([build_request example_config (strip ''What are POSP KYC rules?'')],
             Responded 200 (ChatBody ''<div>ok</div>''
               (srcs1 @ [\<lparr> src_id = 3, snippet = [], src_file = ''N/A'' \<rparr>] @ srcs2)))
        \<and> length srcs1 = 2 \<and> length srcs2 = 0)"
proof -
  let ?c1 = "Citation (Some [Reference (Some (Content (Some (replicate 200 CHR ''a''))))
              (Some (Location (Some (S3Location (Some ''s3://a''))))),
            Reference (Some (Content (Some (replicate 600 CHR ''b'')))) None])"
  let ?R = "Reference (Some (Content None)) (Some (Location None))"
  let ?c3 = "Citation (Some [?R])"
  have h1: "strip ''What are POSP KYC rules?'' \<noteq> []"
    by (simp add: example_strip)
  have h2: "\<not> is_greeting (strip ''What are POSP KYC rules?'')"
    by (simp add: example_strip example_not_greeting)
  have h3: "example_client (build_request example_config (strip ''What are POSP KYC rules?'')) = Inr example_response"
    by (simp add: example_client_def)
  have h4: "resp_output example_response = Some (Generated (Some ''<div>ok</div>''))"
    by (simp add: example_response_def)
  have h5: "get_citations example_response = [?c1, Citation None] @ [?c3] @ []"
    by (simp add: get_citations_def example_response_def)
  have h6: "get_references ?c3 = [] @ [?R] @ []"
    by (simp add: get_references_def)
  have h7: "\<forall>c' \<in> set ([?c1, Citation None] @ []).
              \<forall>ref \<in> set (get_references c'). ref_content ref \<noteq> None"
    by (simp add: get_references_def)
  have h8: "\<forall>ref \<in> set ([] @ []). ref_content ref \<noteq> None"
    by simp
  have l: "list_all (\<lambda>c'. list_all (\<lambda>ref. ref_content ref \<noteq> None) (get_references c'))
        ([?c1, Citation None] @ [])"
    by (simp add: get_references_def)
  have u: "get_uri ?R = ''N/A''"
    by (simp add: get_uri_def)
  have n: "sum_list (map (\<lambda>c. length (get_references c)) [?c1, Citation None]) + length ([] :: reference list) = 2"
    by (simp add: get_references_def)
  from missing_text[where raw = "''What are POSP KYC rules?''" and cfg = example_config
      and client = example_client and r = example_response and reply = "''<div>ok</div>''"
      and before = "[?c1, Citation None]" and c = ?c3 and after = "[]" and pre = "[]"
      and loc = "Some (Location None)" and post = "[]" and i = 3,
      OF h1 h2 h3 h4 h5 h6 h7 h8]
  have "\<exists>srcs1 srcs2.
        chat example_config example_client (Text ''What are POSP KYC rules?'')
          = ([build_request example_config (strip ''What are POSP KYC rules?'')],
             Responded 200 (ChatBody ''<div>ok</div>''
               (srcs1 @ [\<lparr> src_id = 3, snippet = [], src_file = ''N/A'' \<rparr>] @ srcs2)))
        \<and> length srcs1 = 2 \<and> length srcs2 = 0"
    unfolding u n by simp
  with h1 h2 h3 h4 h5 h6 l show ?thesis by blast
qed

end
